theory Spec2Isabelle
  imports Complex_Main "HOL-Library.Sublist"
begin

section \<open>The asynchronous memo hook (useAsyncMemo)\<close>

text \<open>
  The hook keeps one piece of React state, \<open>result\<close>, initialised with the loading state.
  Its effect has the dependency list \<open>[factory, loadingState, errorState, deps]\<close>; React
  runs the effect after the first render and after every render in which that list differs
  from the one of the previous run. The list is modelled by one value, the dependency
  signature \<open>sig\<close>, which differs between two renders exactly when React finds a difference.
  The effect stores the loading state and calls the producer; the producer's promise settles
  later, as an event of its own, and its two callbacks store the value, or what the error
  handler captured by the effect makes of the error. The effect returns no clean-up function
  and the callbacks compare nothing.

  The type \<open>'r\<close> stands for the union \<open>T | L\<close> of the source.
\<close>

record ('k, 'r, 'e) memo_args =
  sig :: 'k
  loadingState :: 'r
  errorState :: "('e \<Rightarrow> 'r) option"

text \<open>
  \<open>inflight\<close> lists the producers called and not yet settled: the number of the call, the
  signature it was called under and the error handler its callbacks captured. \<open>calls\<close>
  counts the invocations of the producer.
\<close>

record ('k, 'r, 'e) memo =
  result :: 'r
  effect_sig :: "'k option"
  inflight :: "(nat \<times> 'k \<times> ('e \<Rightarrow> 'r)) list"
  calls :: nat

datatype ('r, 'e) settled = Resolved 'r | Rejected 'e

text \<open>Lines 10 and 11: the error handler defaults to the constant loading state.\<close>

definition handler_of :: "('k, 'r, 'e) memo_args \<Rightarrow> 'e \<Rightarrow> 'r" where
  "handler_of a = (case errorState a of None \<Rightarrow> (\<lambda>_. loadingState a) | Some f \<Rightarrow> f)"

text \<open>Lines 13 to 24: the body of the effect.\<close>

definition run_effect :: "('k, 'r, 'e) memo_args \<Rightarrow> ('k, 'r, 'e) memo \<Rightarrow> ('k, 'r, 'e) memo" where
  "run_effect a m =
     m\<lparr>result := loadingState a,
       effect_sig := Some (sig a),
       inflight := inflight m @ [(calls m, sig a, handler_of a)],
       calls := Suc (calls m)\<rparr>"

definition mount :: "('k, 'r, 'e) memo_args \<Rightarrow> ('k, 'r, 'e) memo" where
  "mount a = run_effect a \<lparr>result = loadingState a, effect_sig = None, inflight = [], calls = 0\<rparr>"

definition render :: "('k, 'r, 'e) memo_args \<Rightarrow> ('k, 'r, 'e) memo \<Rightarrow> ('k, 'r, 'e) memo" where
  "render a m = (if effect_sig m = Some (sig a) then m else run_effect a m)"

text \<open>Lines 16 to 23: the promise of call \<open>pid\<close> settles and one of its callbacks runs.\<close>

definition settle :: "nat \<Rightarrow> ('r, 'e) settled \<Rightarrow> ('k, 'r, 'e) memo \<Rightarrow> ('k, 'r, 'e) memo" where
  "settle pid out m =
     (case map_of (inflight m) pid of
        None \<Rightarrow> m
      | Some (k, h) \<Rightarrow>
          m\<lparr>result := (case out of Resolved v \<Rightarrow> v | Rejected e \<Rightarrow> h e),
            inflight := filter (\<lambda>p. fst p \<noteq> pid) (inflight m)\<rparr>)"

datatype ('k, 'r, 'e) memo_event =
  Render "('k, 'r, 'e) memo_args"
| Settle nat "('r, 'e) settled"

fun memo_step :: "('k, 'r, 'e) memo_event \<Rightarrow> ('k, 'r, 'e) memo \<Rightarrow> ('k, 'r, 'e) memo" where
  "memo_step (Render a) m = render a m"
| "memo_step (Settle pid out) m = settle pid out m"

definition memo_run :: "('k, 'r, 'e) memo_event list \<Rightarrow> ('k, 'r, 'e) memo \<Rightarrow> ('k, 'r, 'e) memo" where
  "memo_run evs m = fold memo_step evs m"

text \<open>A call is stale when the signature it was issued under is no longer the current one.\<close>

definition stale :: "('k, 'r, 'e) memo \<Rightarrow> nat \<Rightarrow> bool" where
  "stale m pid =
     (case map_of (inflight m) pid of None \<Rightarrow> False | Some (k, h) \<Rightarrow> effect_sig m \<noteq> Some k)"


section \<open>The upload session (useFileUploader)\<close>

text \<open>
  A \<open>File\<close> object: \<open>fid\<close> is its identity, and \<open>fname\<close> and \<open>ftype\<close> are its
  \<open>name\<close> and \<open>type\<close> properties. An object URL is a string that the browser makes up
  afresh at every \<open>createObjectURL\<close>; the model numbers them in the order of their creation.
\<close>

record File =
  fid :: nat
  fname :: string
  ftype :: string

record metadata =
  width :: nat
  height :: nat
  name :: string

type_synonym url = nat

text \<open>The object \<open>{ imageBlobUrl, imageMetadata }\<close> that the producer returns.\<close>

type_synonym derived = "url option \<times> metadata option"

text \<open>
  \<open>imageBlob\<close> is the state of line 51 and \<open>memo\<close> the memo hook of line 53, whose
  \<open>result\<close> is the state of that hook. \<open>shown_blob\<close> and \<open>shown\<close> are what the last
  render read from the two states and returned: the hook returns \<open>imageBlob\<close>,
  \<open>imageBlobUrl\<close> and \<open>imageMetadata\<close> of that render. \<open>renders\<close> counts the renders.
  \<open>decoding\<close> lists the producers that wait in \<open>getImageDimensions\<close>: the number of the
  call, the file the producer closed over and the URL it created. \<open>created\<close> and
  \<open>revoked\<close> log the calls of \<open>createObjectURL\<close> and \<open>revokeObjectURL\<close>.
\<close>

record uploader =
  imageBlob :: "File option"
  memo :: "(nat, derived, unit) memo"
  shown_blob :: "File option"
  shown :: derived
  renders :: nat
  decoding :: "(nat \<times> File \<times> url) list"
  created :: "(url \<times> File) list"
  revoked :: "url list"
  mounted :: bool

definition loading :: derived where
  "loading = (None, None)"

text \<open>
  Lines 53 to 65: the arguments of the memo hook. The producer, the list \<open>[imageBlob]\<close> and
  the loading object are written inline, so every render makes new ones, and all of them are
  in the dependency list of the effect of the hook (line 24 of the hook). The signature of a
  render is therefore its own: the number of the render stands for it, and the effect runs
  after every render.
\<close>

definition uploader_args :: "nat \<Rightarrow> (nat, derived, unit) memo_args" where
  "uploader_args n = \<lparr>sig = n, loadingState = loading, errorState = None\<rparr>"

definition imageBlobUrl :: "uploader \<Rightarrow> url option" where
  "imageBlobUrl u = fst (shown u)"

definition imageMetadata :: "uploader \<Rightarrow> metadata option" where
  "imageMetadata u = snd (shown u)"

text \<open>
  Lines 68 to 73: the effect on \<open>[imageBlobUrl]\<close> sets nothing up and returns a clean-up
  function. React calls it, with the URL of the render that registered it, once a render
  with another URL has been committed.
\<close>

definition url_cleanup :: "url option \<Rightarrow> url option \<Rightarrow> url list \<Rightarrow> url list" where
  "url_cleanup old new rlog =
     (if old = new then rlog else (case old of None \<Rightarrow> rlog | Some x \<Rightarrow> rlog @ [x]))"

text \<open>\<open>setImageBlob\<close> stores the file; React drops an update to a component that is gone.\<close>

definition setImageBlob :: "File option \<Rightarrow> uploader \<Rightarrow> uploader" where
  "setImageBlob b u = (if \<not> mounted u then u else u\<lparr>imageBlob := b\<rparr>)"

text \<open>
  One render and its commit. The render reads the two states and returns them. After the
  commit React calls the clean-up of line 70 if the URL returned differs from the one the
  render before returned, and runs the effect of the memo hook, which stores the loading
  state and calls the producer of this render (lines 54 to 62). Without a file the producer
  returns at once, and its promise settles before any other event; with a file it creates
  the URL and waits for the image to load.
\<close>

definition rerender :: "uploader \<Rightarrow> uploader" where
  "rerender u =
     (if \<not> mounted u then u
      else
        let b = imageBlob u;
            r = result (memo u);
            pid = calls (memo u);
            m1 = render (uploader_args (renders u)) (memo u);
            u1 = u\<lparr>shown_blob := b, shown := r, renders := Suc (renders u),
                   revoked := url_cleanup (fst (shown u)) (fst r) (revoked u)\<rparr>
        in if calls m1 = calls (memo u) then u1
           else (case b of
               None \<Rightarrow> u1\<lparr>memo := settle pid (Resolved (None, None)) m1\<rparr>
             | Some f \<Rightarrow>
                 let x = length (created u)
                 in u1\<lparr>memo := m1,
                       decoding := decoding u @ [(pid, f, x)],
                       created := created u @ [(x, f)]\<rparr>))"

text \<open>
  Lines 13 to 20 and 57 to 61: the image of call \<open>pid\<close> has loaded with its natural
  dimensions, the producer returns and the callback of the memo hook stores what it
  returned. The next render returns it.
\<close>

definition loaded :: "nat \<Rightarrow> nat \<Rightarrow> nat \<Rightarrow> uploader \<Rightarrow> uploader" where
  "loaded pid w h u =
     (if \<not> mounted u then u
      else (case map_of (decoding u) pid of
          None \<Rightarrow> u
        | Some (f, x) \<Rightarrow>
            u\<lparr>memo := settle pid (Resolved (Some x, Some \<lparr>width = w, height = h, name = fname f\<rparr>)) (memo u),
              decoding := filter (\<lambda>p. fst p \<noteq> pid) (decoding u)\<rparr>))"

text \<open>Lines 91 to 93.\<close>

definition cancel :: "uploader \<Rightarrow> uploader" where
  "cancel u = setImageBlob None u"

text \<open>Lines 75 to 80: \<open>files\<close> is the list of files of the input element.\<close>

definition handleFileUploadEvent :: "File list \<Rightarrow> uploader \<Rightarrow> uploader" where
  "handleFileUploadEvent files u = (case files of [] \<Rightarrow> u | f # _ \<Rightarrow> setImageBlob (Some f) u)"

text \<open>Line 99: \<open>handleFileUpload\<close> is \<open>setImageBlob\<close> itself.\<close>

definition handleFileUpload :: "File \<Rightarrow> uploader \<Rightarrow> uploader" where
  "handleFileUpload f u = setImageBlob (Some f) u"

text \<open>
  The component goes away: React calls the clean-up function of every effect, that of line
  70 with the URL the last render returned.
\<close>

definition unmount :: "uploader \<Rightarrow> uploader" where
  "unmount u =
     (if \<not> mounted u then u
      else u\<lparr>mounted := False,
             revoked := (case fst (shown u) of None \<Rightarrow> revoked u | Some x \<Rightarrow> revoked u @ [x])\<rparr>)"

text \<open>
  The first render returns no file and the loading state; the effect of the memo hook calls
  the producer, which returns at once.
\<close>

definition useFileUploader :: uploader where
  "useFileUploader =
     \<lparr>imageBlob = None,
      memo = settle 0 (Resolved (None, None)) (mount (uploader_args 0)),
      shown_blob = None, shown = loading, renders = 1,
      decoding = [], created = [], revoked = [], mounted = True\<rparr>"

text \<open>
  The events of a session: a file arrives (chosen, dropped or pasted), the user cancels, the
  image of call \<open>pid\<close> loads with its dimensions, React renders, the component goes away.
  A render is always due: the producer of the first render settles with a new object, and
  the effect of every later render stores a new loading object.
\<close>

datatype event =
  Replace File
| Cancel
| Loaded nat nat nat
| Rerender
| Unmount

fun step :: "event \<Rightarrow> uploader \<Rightarrow> uploader" where
  "step (Replace f) u = handleFileUpload f u"
| "step Cancel u = cancel u"
| "step (Loaded pid w h) u = loaded pid w h u"
| "step Rerender u = rerender u"
| "step Unmount u = unmount u"

definition run :: "event list \<Rightarrow> uploader" where
  "run evs = fold step evs useFileUploader"

section \<open>The 2D drawing context\<close>

text \<open>
  The conversion pipelines draw through the browser's 2D context. The model keeps what
  the calls of the source touch: the raster, the fill style, the current path, the clipping
  region and the stack of \<open>save\<close>. Coordinates are JavaScript numbers, modelled as reals.

  A region covers a pixel in part at its edge, where the browser smooths: coverage is a
  number from 0, the pixel lies outside, to 255, the pixel lies inside. What the model cannot
  compute it takes from the browser as a parameter: how much of a pixel a path covers, how
  much of it a rectangle covers that neither contains nor misses it, what two partial
  coverages make together, what colour the image contributes at a pixel when drawn into a
  rectangle, how a colour that is neither opaque nor fully transparent blends with what lies
  under it, and what a partly covered pixel becomes.
\<close>

datatype BackgroundOption = White | Black | Transparent

record rgba =
  red :: nat
  green :: nat
  blue :: nat
  alpha :: nat

definition css_colour :: "BackgroundOption \<Rightarrow> rgba" where
  "css_colour bg =
     (case bg of
        White \<Rightarrow> \<lparr>red = 255, green = 255, blue = 255, alpha = 255\<rparr>
      | Black \<Rightarrow> \<lparr>red = 0, green = 0, blue = 0, alpha = 255\<rparr>
      | Transparent \<Rightarrow> \<lparr>red = 0, green = 0, blue = 0, alpha = 0\<rparr>)"

datatype cmd =
  Save
| Restore
| ClearRect real real real real
| FillStyle BackgroundOption
| FillRect real real real real
| BeginPath
| MoveTo real real
| LineTo real real
| QuadraticCurveTo real real real real
| ClosePath
| Clip
| DrawImage real real real real

type_synonym pixel = "int \<times> int"

record browser =
  coverage :: "cmd list \<Rightarrow> pixel \<Rightarrow> nat"
  edge :: "real \<Rightarrow> real \<Rightarrow> real \<Rightarrow> real \<Rightarrow> pixel \<Rightarrow> nat"
  meet :: "nat \<Rightarrow> nat \<Rightarrow> nat"
  sample :: "real \<Rightarrow> real \<Rightarrow> real \<Rightarrow> real \<Rightarrow> pixel \<Rightarrow> rgba"
  blend :: "rgba \<Rightarrow> rgba \<Rightarrow> rgba"
  mix :: "nat \<Rightarrow> rgba \<Rightarrow> rgba \<Rightarrow> rgba"

record context2d =
  pixels :: "pixel \<Rightarrow> rgba"
  fillStyle :: rgba
  path :: "cmd list"
  clip :: "pixel \<Rightarrow> nat"
  saved :: "(rgba \<times> (pixel \<Rightarrow> nat)) list"

text \<open>A pixel is the unit square at its coordinates.\<close>

definition inside_rect :: "real \<Rightarrow> real \<Rightarrow> real \<Rightarrow> real \<Rightarrow> pixel \<Rightarrow> bool" where
  "inside_rect x y w h p \<longleftrightarrow>
     x \<le> real_of_int (fst p) \<and> real_of_int (fst p) + 1 \<le> x + w \<and>
     y \<le> real_of_int (snd p) \<and> real_of_int (snd p) + 1 \<le> y + h"

definition outside_rect :: "real \<Rightarrow> real \<Rightarrow> real \<Rightarrow> real \<Rightarrow> pixel \<Rightarrow> bool" where
  "outside_rect x y w h p \<longleftrightarrow>
     real_of_int (fst p) + 1 \<le> x \<or> x + w \<le> real_of_int (fst p) \<or>
     real_of_int (snd p) + 1 \<le> y \<or> y + h \<le> real_of_int (snd p)"

definition both :: "browser \<Rightarrow> nat \<Rightarrow> nat \<Rightarrow> nat" where
  "both B a b =
     (if a = 0 \<or> b = 0 then 0 else if 255 \<le> a then b else if 255 \<le> b then a else meet B a b)"

definition rect_cover :: "browser \<Rightarrow> real \<Rightarrow> real \<Rightarrow> real \<Rightarrow> real \<Rightarrow> pixel \<Rightarrow> nat" where
  "rect_cover B x y w h p =
     (if inside_rect x y w h p then 255 else if outside_rect x y w h p then 0 else edge B x y w h p)"

text \<open>Source-over compositing, the default of the context.\<close>

definition over :: "browser \<Rightarrow> rgba \<Rightarrow> rgba \<Rightarrow> rgba" where
  "over B src dst = (if alpha src = 255 then src else if alpha src = 0 then dst else blend B src dst)"

text \<open>
  Painting a rectangle through the clipping region: a pixel that both cover takes the new
  colour, a pixel that either misses keeps its own, and a pixel covered in part becomes what
  the browser mixes of the two.
\<close>

definition paint ::
  "browser \<Rightarrow> context2d \<Rightarrow> real \<Rightarrow> real \<Rightarrow> real \<Rightarrow> real \<Rightarrow> (pixel \<Rightarrow> rgba) \<Rightarrow> pixel \<Rightarrow> rgba" where
  "paint B c x y w h f p =
     (let k = both B (rect_cover B x y w h p) (clip c p)
      in if k = 0 then pixels c p else if 255 \<le> k then f p else mix B k (f p) (pixels c p))"

fun exec1 :: "browser \<Rightarrow> cmd \<Rightarrow> context2d \<Rightarrow> context2d" where
  "exec1 B Save c = c\<lparr>saved := (fillStyle c, clip c) # saved c\<rparr>"
| "exec1 B Restore c =
     (case saved c of [] \<Rightarrow> c | s # rest \<Rightarrow> c\<lparr>fillStyle := fst s, clip := snd s, saved := rest\<rparr>)"
| "exec1 B (ClearRect x y w h) c =
     c\<lparr>pixels := paint B c x y w h (\<lambda>p. css_colour Transparent)\<rparr>"
| "exec1 B (FillStyle bg) c = c\<lparr>fillStyle := css_colour bg\<rparr>"
| "exec1 B (FillRect x y w h) c =
     c\<lparr>pixels := paint B c x y w h (\<lambda>p. over B (fillStyle c) (pixels c p))\<rparr>"
| "exec1 B BeginPath c = c\<lparr>path := []\<rparr>"
| "exec1 B Clip c = c\<lparr>clip := (\<lambda>p. both B (clip c p) (coverage B (path c) p))\<rparr>"
| "exec1 B (DrawImage x y w h) c =
     c\<lparr>pixels := paint B c x y w h (\<lambda>p. over B (sample B x y w h p) (pixels c p))\<rparr>"
| "exec1 B seg c = c\<lparr>path := path c @ [seg]\<rparr>"

definition exec :: "browser \<Rightarrow> cmd list \<Rightarrow> context2d \<Rightarrow> context2d" where
  "exec B cmds c = fold (exec1 B) cmds c"

section \<open>The rounded-border pipeline\<close>

text \<open>Lines 69 to 78 of the rounded tool: the path, from the radius as it was passed.\<close>

definition rounded_path :: "real \<Rightarrow> real \<Rightarrow> real \<Rightarrow> cmd list" where
  "rounded_path w h r =
     [MoveTo r 0,
      LineTo (w - r) 0,
      QuadraticCurveTo w 0 w r,
      LineTo w (h - r),
      QuadraticCurveTo w h (w - r) h,
      LineTo r h,
      QuadraticCurveTo 0 h 0 (h - r),
      LineTo 0 r,
      QuadraticCurveTo 0 0 r 0,
      ClosePath]"

text \<open>Lines 63 to 81: what the handler of \<open>onload\<close> draws.\<close>

definition rounded_onload :: "metadata \<Rightarrow> real \<Rightarrow> BackgroundOption \<Rightarrow> cmd list" where
  "rounded_onload md r bg =
     (let w = real (width md); h = real (height md)
      in [Save, ClearRect 0 0 w h, FillStyle bg, FillRect 0 0 w h, BeginPath]
         @ rounded_path w h r
         @ [Clip, DrawImage 0 0 w h, Restore])"

text \<open>Lines 88 to 91: the size given to the canvas element.\<close>

definition rounded_canvasProps :: "metadata \<Rightarrow> real \<times> real" where
  "rounded_canvasProps md = (real (width md), real (height md))"

text \<open>
  Lines 57 and 58 of the rounded tool. The regular expression \<open>/\..+$/\<close> matches at the
  first dot after which at least one character follows and no line break follows up to the
  end of the name: its \<open>.\<close> matches no line break, and its \<open>$\<close> only the end. The line
  breaks are the line feed, the carriage return, and the line and paragraph separators
  (written here as their UTF-8 bytes).
\<close>

fun has_line_break :: "string \<Rightarrow> bool" where
  "has_line_break [] = False"
| "has_line_break (c # cs) =
     (c = CHR 0x0A \<or> c = CHR 0x0D
      \<or> (c = CHR 0xE2 \<and> (take 2 cs = [CHR 0x80, CHR 0xA8] \<or> take 2 cs = [CHR 0x80, CHR 0xA9]))
      \<or> has_line_break cs)"

fun strip_from_dot :: "string \<Rightarrow> string" where
  "strip_from_dot [] = []"
| "strip_from_dot (c # cs) =
     (if c = CHR ''.'' \<and> cs \<noteq> [] \<and> \<not> has_line_break cs then [] else c # strip_from_dot cs)"

definition rounded_download_name :: "string \<Rightarrow> string" where
  "rounded_download_name imageFileName = strip_from_dot imageFileName @ ''.png''"

section \<open>JavaScript numbers\<close>

text \<open>
  A JavaScript number is a double. The model has the finite doubles that are not negative:
  the pair \<open>(m, e)\<close> stands for \<open>m * 2 ^ e\<close>, where \<open>m\<close> has at most 53 bits.
  \<open>None\<close> stands for \<open>Infinity\<close>.
\<close>

type_synonym double = "nat \<times> int"

definition dval :: "double \<Rightarrow> real" where
  "dval d =
     (if 0 \<le> snd d then real (fst d * 2 ^ nat (snd d)) else real (fst d) / 2 ^ nat (- snd d))"

definition double_of_nat :: "nat \<Rightarrow> double" where
  "double_of_nat k = (k, 0)"

text \<open>The number of binary digits of a whole number.\<close>

fun bits :: "nat \<Rightarrow> nat" where
  "bits n = (if n = 0 then 0 else Suc (bits (n div 2)))"

declare bits.simps [simp del]

text \<open>
  The double nearest to \<open>n * 2 ^ e\<close>: the integer is cut to 53 bits, to the nearest and
  in a tie to the even one, and a result of \<open>2 ^ 1024\<close> or more is \<open>Infinity\<close>.
\<close>

definition overflows :: "double \<Rightarrow> bool" where
  "overflows d \<longleftrightarrow>
     (if 0 \<le> snd d then 2 ^ 1024 \<le> fst d * 2 ^ nat (snd d)
      else 2 ^ (1024 + nat (- snd d)) \<le> fst d)"

definition round53 :: "nat \<Rightarrow> int \<Rightarrow> double option" where
  "round53 n e =
     (let k = bits n - 53;
          q = n div 2 ^ k;
          r = n mod 2 ^ k;
          q' = (if 0 < k \<and> (2 ^ (k - 1) < r \<or> (r = 2 ^ (k - 1) \<and> odd q)) then Suc q else q);
          d = (q', e + int k)
      in if overflows d then None else Some d)"

text \<open>
  The product of a whole number below \<open>2 ^ 53\<close>, which is a double as it stands, and a
  double: the double nearest to the exact product.
\<close>

definition fmul :: "nat \<Rightarrow> double \<Rightarrow> double option" where
  "fmul w d = round53 (w * fst d) (snd d)"

section \<open>The SVG pipeline\<close>

text \<open>
  Lines 17 and 18 of the SVG tool, and lines 74 to 77: the size given to the canvas element.
  The scale is a double that is not negative, and the dimensions of the image are whole
  numbers.
\<close>

definition svg_size :: "metadata \<Rightarrow> double \<Rightarrow> double option \<times> double option" where
  "svg_size md s = (fmul (width md) s, fmul (height md) s)"

definition svg_canvasProps :: "metadata \<Rightarrow> double \<Rightarrow> double option \<times> double option" where
  "svg_canvasProps md s = svg_size md s"

text \<open>
  The raster of a canvas element has as many pixels as its \<open>width\<close> and \<open>height\<close>
  attributes say. React writes the number into the attribute as a string, and the browser
  reads the string as a non-negative integer, which stops at the decimal point. A number
  that is zero, or at least a millionth and below \<open>2 ^ 31\<close>, prints in plain decimal
  notation and within the range of the attribute: the canvas keeps its integer part.
  \<open>Infinity\<close> does not read as an integer, and the canvas keeps its default size, 300 by
  150. Of the other numbers the model says nothing (\<open>None\<close>): they print with an exponent
  or lie outside the range.
\<close>

definition plain :: "double \<Rightarrow> bool" where
  "plain d \<longleftrightarrow> fst d = 0 \<or> (1 / 10 ^ 6 \<le> dval d \<and> dval d < 2 ^ 31)"

definition canvas_dim :: "nat \<Rightarrow> double option \<Rightarrow> nat option" where
  "canvas_dim dflt x =
     (case x of
        None \<Rightarrow> Some dflt
      | Some d \<Rightarrow> if plain d then Some (nat \<lfloor>dval d\<rfloor>) else None)"

definition canvas_size :: "double option \<times> double option \<Rightarrow> nat option \<times> nat option" where
  "canvas_size props = (canvas_dim 300 (fst props), canvas_dim 150 (snd props))"

text \<open>
  Lines 60 to 69: what the handler of \<open>onload\<close> draws on a canvas of \<open>cw\<close> by \<open>ch\<close>
  pixels. \<open>drawImage\<close> draws nothing when one of its arguments is \<open>Infinity\<close>.
\<close>

definition svg_onload :: "metadata \<Rightarrow> double \<Rightarrow> nat \<Rightarrow> nat \<Rightarrow> cmd list" where
  "svg_onload md s cw ch =
     ClearRect 0 0 (real cw) (real ch) #
     (case svg_size md s of
        (Some w, Some h) \<Rightarrow> [DrawImage 0 0 (dval w) (dval h)]
      | _ \<Rightarrow> [])"

text \<open>
  \<open>String.prototype.replace\<close> with a string as its pattern replaces the first occurrence
  of the pattern, wherever it is.
\<close>

fun replace_first :: "string \<Rightarrow> string \<Rightarrow> string \<Rightarrow> string" where
  "replace_first pat rep [] = (if pat = [] then rep else [])"
| "replace_first pat rep (c # cs) =
     (if prefix pat (c # cs) then rep @ drop (length pat) (c # cs)
      else c # replace_first pat rep cs)"

text \<open>
  Lines 51 to 54. \<open>scale_text\<close> is the scale as the template literal prints it, that is
  JavaScript's conversion of the number to a string.
\<close>

definition svg_download_name :: "string \<Rightarrow> string \<Rightarrow> string" where
  "svg_download_name svgFileName scale_text =
     replace_first ''.svg'' [] svgFileName @ ''-'' @ scale_text @ ''x.png''"

section \<open>Export\<close>

text \<open>
  What the environment decides in an export: whether the component has its canvas element,
  whether the canvas gives a 2D context, whether the image fires \<open>onload\<close>, what
  \<open>toBlob\<close> hands to its callback, and the size of the raster of the canvas as the
  handler of the SVG tool reads it. The three errors are the three messages of the source.
\<close>

datatype export_error = NoContext | NoBlob | NoCanvas

record canvas_env =
  canvas_present :: bool
  context_2d :: bool
  image_loads :: bool
  blob :: "nat option"
  canvas_width :: nat
  canvas_height :: nat

text \<open>
  What an export leaves behind: how the promise of \<open>convertToPng\<close> settled, how the promise
  of \<open>saveImage\<close> settled if it was called at all, what was drawn, and the names under which
  a download was started.
\<close>

record export =
  promise :: "export_error + unit"
  save_promise :: "(export_error + unit) option"
  drawn :: "cmd list"
  downloads :: "string list"

text \<open>\<open>saveImage\<close> of both tools, up to the file name.\<close>

definition saveImage :: "canvas_env \<Rightarrow> string \<Rightarrow> (export_error + unit) \<times> string list" where
  "saveImage env download =
     (if canvas_present env
      then (case blob env of None \<Rightarrow> (Inl NoBlob, []) | Some b \<Rightarrow> (Inr (), [download]))
      else (Inl NoCanvas, []))"

text \<open>
  \<open>convertToPng\<close> of the rounded tool, lines 39 to 86. The function returns once it has set
  the source of the image: its promise is fulfilled then. The handler of \<open>onload\<close> runs later
  and calls \<open>saveImage\<close> under \<open>void\<close>, so nothing waits for that promise.
\<close>

definition rounded_convertToPng ::
  "canvas_env \<Rightarrow> metadata \<Rightarrow> real \<Rightarrow> BackgroundOption \<Rightarrow> export" where
  "rounded_convertToPng env md r bg =
     (if \<not> (canvas_present env \<and> context_2d env)
      then \<lparr>promise = Inl NoContext, save_promise = None, drawn = [], downloads = []\<rparr>
      else if \<not> image_loads env
      then \<lparr>promise = Inr (), save_promise = None, drawn = [], downloads = []\<rparr>
      else
        let s = saveImage env (rounded_download_name (name md))
        in \<lparr>promise = Inr (), save_promise = Some (fst s),
             drawn = rounded_onload md r bg, downloads = snd s\<rparr>)"

text \<open>\<open>convertToPng\<close> of the SVG tool, lines 31 to 72.\<close>

definition svg_convertToPng :: "canvas_env \<Rightarrow> metadata \<Rightarrow> double \<Rightarrow> string \<Rightarrow> export" where
  "svg_convertToPng env md s scale_text =
     (if \<not> (canvas_present env \<and> context_2d env)
      then \<lparr>promise = Inl NoContext, save_promise = None, drawn = [], downloads = []\<rparr>
      else if \<not> image_loads env
      then \<lparr>promise = Inr (), save_promise = None, drawn = [], downloads = []\<rparr>
      else
        let sv = saveImage env (svg_download_name (name md) scale_text)
        in \<lparr>promise = Inr (), save_promise = Some (fst sv),
             drawn = svg_onload md s (canvas_width env) (canvas_height env),
             downloads = snd sv\<rparr>)"

section \<open>What the tools accept\<close>

text \<open>
  Line 88 of the session: the list given to the paste hook, the same for every tool. Lines
  139 and 211 of the SVG tool: the \<open>accept\<close> attribute of the file input, and the list given
  to the drop zone.
\<close>

definition uploader_acceptedFileTypes :: "string list" where
  "uploader_acceptedFileTypes = [''image/*'', ''.jpg'', ''.jpeg'', ''.png'', ''.webp'', ''.svg'']"

definition svg_accept :: string where
  "svg_accept = ''.svg''"

definition svg_acceptedFileTypes :: "string list" where
  "svg_acceptedFileTypes = [''image/svg+xml'', ''.svg'']"

section \<open>Notions used in the statements\<close>




text \<open>Both fields of the object of the producer are present, or both are absent.\<close>

definition paired :: "derived \<Rightarrow> bool" where
  "paired d = (case d of (None, None) \<Rightarrow> True | (Some x, Some m) \<Rightarrow> True | _ \<Rightarrow> False)"

definition failed :: "export \<Rightarrow> bool" where
  "failed x \<longleftrightarrow> isl (promise x) \<or> (case save_promise x of None \<Rightarrow> False | Some r \<Rightarrow> isl r)"

section \<open>Concrete inputs\<close>

text \<open>
  The inputs of the concrete runs below: arguments of the memo hook, files, metadata,
  doubles, a browser with its images, a canvas, and two environments of an export.
\<close>

definition args1 :: "(nat, nat, nat) memo_args" where
  "args1 = \<lparr>sig = 1, loadingState = 0, errorState = None\<rparr>"

definition args2 :: "(nat, nat, nat) memo_args" where
  "args2 = \<lparr>sig = 2, loadingState = 0, errorState = Some (\<lambda>e. e + 100)\<rparr>"

definition fileA :: File where
  "fileA = \<lparr>fid = 1, fname = ''a.svg'', ftype = ''image/svg+xml''\<rparr>"

definition fileB :: File where
  "fileB = \<lparr>fid = 2, fname = ''b.png'', ftype = ''image/png''\<rparr>"

definition md44 :: metadata where
  "md44 = \<lparr>width = 4, height = 4, name = ''a.png''\<rparr>"

definition md64 :: metadata where
  "md64 = \<lparr>width = 6, height = 4, name = ''logo.svg''\<rparr>"

definition md100 :: metadata where
  "md100 = \<lparr>width = 100, height = 5, name = ''logo.svg''\<rparr>"

definition md12 :: metadata where
  "md12 = \<lparr>width = 12, height = 12, name = ''a.png''\<rparr>"

text \<open>The doubles nearest to 1.3 and to 0.57.\<close>

definition d13 :: double where
  "d13 = (5854679515581645, - 52)"

definition d057 :: double where
  "d057 = (5134103575202365, - 53)"

text \<open>The double \<open>1.0625\<close>, which is 17 sixteenths.\<close>

definition d10625 :: double where
  "d10625 = (17, - 4)"

text \<open>
  A browser that reads the radius, the width and the height off a path of the shape the
  rounded tool builds, and holds a corner of a pixel to be inside when it lies in the
  rectangle and in none of the four corners that the curves cut off. A point at the
  distances \<open>x\<close> and \<open>y\<close> from the two sides of a corner is cut off when it lies before
  the curve from \<open>(0, r)\<close> to \<open>(r, 0)\<close> with the corner as its control point. A pixel is
  covered when its four corners are inside, not covered when none is, and covered by half
  otherwise.
\<close>

definition cut_off :: "real \<Rightarrow> real \<Rightarrow> real \<Rightarrow> bool" where
  "cut_off r x y \<longleftrightarrow> x + y < r \<and> 4 * x * y < (r - x - y) ^ 2"

definition path_radius :: "cmd list \<Rightarrow> real" where
  "path_radius pth = (case pth of MoveTo x y # rest \<Rightarrow> x | _ \<Rightarrow> 0)"

definition path_width :: "cmd list \<Rightarrow> real" where
  "path_width pth = (case drop 2 pth of QuadraticCurveTo a b c d # rest \<Rightarrow> a | _ \<Rightarrow> 0)"

definition path_height :: "cmd list \<Rightarrow> real" where
  "path_height pth = (case drop 4 pth of QuadraticCurveTo a b c d # rest \<Rightarrow> b | _ \<Rightarrow> 0)"

definition inside_path :: "cmd list \<Rightarrow> real \<Rightarrow> real \<Rightarrow> bool" where
  "inside_path pth x y \<longleftrightarrow>
     (let r = path_radius pth; w = path_width pth; h = path_height pth
      in 0 \<le> x \<and> x \<le> w \<and> 0 \<le> y \<and> y \<le> h
         \<and> \<not> cut_off r x y \<and> \<not> cut_off r (w - x) y
         \<and> \<not> cut_off r x (h - y) \<and> \<not> cut_off r (w - x) (h - y))"

definition quad_coverage :: "cmd list \<Rightarrow> pixel \<Rightarrow> nat" where
  "quad_coverage pth p =
     (let x = real_of_int (fst p); y = real_of_int (snd p);
          n = length (filter (\<lambda>c. inside_path pth (fst c) (snd c))
                [(x, y), (x + 1, y), (x, y + 1), (x + 1, y + 1)])
      in if n = 4 then 255 else if n = 0 then 0 else 128)"

text \<open>An opaque image, and an image that is opaque but for the pixel at \<open>(5, 5)\<close>.\<close>

definition opaque_image :: "real \<Rightarrow> real \<Rightarrow> real \<Rightarrow> real \<Rightarrow> pixel \<Rightarrow> rgba" where
  "opaque_image x y w h p = \<lparr>red = 10, green = 20, blue = 30, alpha = 255\<rparr>"

definition holed_image :: "real \<Rightarrow> real \<Rightarrow> real \<Rightarrow> real \<Rightarrow> pixel \<Rightarrow> rgba" where
  "holed_image x y w h p =
     (if p = (5, 5) then \<lparr>red = 0, green = 0, blue = 0, alpha = 0\<rparr>
      else \<lparr>red = 10, green = 20, blue = 30, alpha = 255\<rparr>)"

definition quad_browser ::
  "(real \<Rightarrow> real \<Rightarrow> real \<Rightarrow> real \<Rightarrow> pixel \<Rightarrow> rgba) \<Rightarrow> browser" where
  "quad_browser img =
     \<lparr>coverage = quad_coverage,
      edge = (\<lambda>x y w h p. 128),
      meet = min,
      sample = img,
      blend = (\<lambda>s d. d),
      mix = (\<lambda>k s d. \<lparr>red = (red s + red d) div 2, green = (green s + green d) div 2,
                        blue = (blue s + blue d) div 2, alpha = (alpha s + alpha d) div 2\<rparr>)\<rparr>"

definition blank :: context2d where
  "blank = \<lparr>pixels = (\<lambda>p. \<lparr>red = 1, green = 2, blue = 3, alpha = 4\<rparr>),
     fillStyle = css_colour Black, path = [], clip = (\<lambda>p. 255), saved = []\<rparr>"

definition env_no_blob :: canvas_env where
  "env_no_blob = \<lparr>canvas_present = True, context_2d = True, image_loads = True, blob = None,
     canvas_width = 12, canvas_height = 8\<rparr>"

definition env_no_context :: canvas_env where
  "env_no_context = \<lparr>canvas_present = True, context_2d = False, image_loads = True, blob = Some 0,
     canvas_width = 4, canvas_height = 4\<rparr>"

section \<open>Evaluation of concrete runs\<close>

text \<open>The equations that evaluate a concrete run of the hook and of the session.\<close>

lemmas eval_memo = memo_run_def mount_def render_def run_effect_def settle_def handler_of_def stale_def
  args1_def args2_def

lemmas eval_session = run_def useFileUploader_def handleFileUpload_def cancel_def setImageBlob_def
  rerender_def loaded_def unmount_def uploader_args_def loading_def url_cleanup_def
  imageBlobUrl_def imageMetadata_def mount_def render_def run_effect_def settle_def fileA_def
  fileB_def Let_def handler_of_def

lemmas eval_export = rounded_convertToPng_def svg_convertToPng_def saveImage_def env_no_blob_def
  env_no_context_def failed_def Let_def

lemmas eval_double = fmul_def round53_def overflows_def bits.simps dval_def plain_def canvas_dim_def
  canvas_size_def svg_canvasProps_def svg_size_def double_of_nat_def Let_def

section \<open>Facts about the memo hook\<close>






lemma settle_result_cases:
  "result (settle pid (Resolved v) m) = v \<or> result (settle pid (Resolved v) m) = result m"
  by (simp add: settle_def split: option.splits)









subsection \<open>Rejected producers\<close>



section \<open>Properties of the upload session\<close>

subsection \<open>Completions of superseded producers\<close>

text \<open>
  Claim C1 at a concrete run. The hook is mounted under signature 1 and rendered under
  signature 2; the second producer resolves with 20, then the first, stale by now, resolves
  with 10: the hook reports 10, not 20. In the session, a file A is replaced by a file B,
  the image of B loads and is shown, and then the image of A loads: the next render returns
  B as the source file, and the URL and the metadata of A.
\<close>

theorem stale_completion_overwrites:
  "stale (memo_run [Render args2, Settle 1 (Resolved 20)] (mount args1)) 0
   \<and> result (memo_run [Render args2, Settle 1 (Resolved 20)] (mount args1)) = 20
   \<and> result (settle 0 (Resolved 10) (memo_run [Render args2, Settle 1 (Resolved 20)] (mount args1))) = 10
   \<and> imageMetadata (run [Replace fileA, Rerender, Replace fileB, Rerender, Loaded 2 10 20, Rerender]) =
       Some \<lparr>width = 10, height = 20, name = fname fileB\<rparr>
   \<and> shown_blob (run [Replace fileA, Rerender, Replace fileB, Rerender, Loaded 2 10 20, Rerender,
        Loaded 1 30 40, Rerender]) = Some fileB
   \<and> imageBlobUrl (run [Replace fileA, Rerender, Replace fileB, Rerender, Loaded 2 10 20, Rerender,
        Loaded 1 30 40, Rerender]) = Some 0
   \<and> imageMetadata (run [Replace fileA, Rerender, Replace fileB, Rerender, Loaded 2 10 20, Rerender,
        Loaded 1 30 40, Rerender]) = Some \<lparr>width = 30, height = 40, name = fname fileA\<rparr>
   \<and> created (run [Replace fileA, Rerender, Replace fileB, Rerender, Loaded 2 10 20, Rerender,
        Loaded 1 30 40, Rerender]) ! 0 = (0, fileA)
   \<and> fname fileA \<noteq> fname fileB"
  by (simp add: eval_memo eval_session)

subsection \<open>Release of object URLs\<close>

text \<open>
  Claim C3 at two concrete runs. A file is chosen and rendered, and the component goes away
  before the image has loaded: the URL 0 was created and is never revoked, not even when
  the image loads afterwards. A file is chosen and two renders follow, each of which calls
  the producer; both images load before the next render, which returns the URL of the
  second. Four URLs have been created when the component goes away, and the only one
  revoked is the one that a render returned.
\<close>

theorem created_url_never_released:
  "created (run [Replace fileA, Rerender, Unmount]) = [(0, fileA)]
   \<and> \<not> mounted (run [Replace fileA, Rerender, Unmount])
   \<and> revoked (run [Replace fileA, Rerender, Unmount]) = []
   \<and> revoked (run [Replace fileA, Rerender, Unmount, Loaded 1 3 4]) = []
   \<and> map fst (created (run [Replace fileA, Rerender, Rerender, Loaded 1 3 4, Loaded 2 3 4,
        Rerender, Rerender, Unmount])) = [0, 1, 2, 3]
   \<and> revoked (run [Replace fileA, Rerender, Rerender, Loaded 1 3 4, Loaded 2 3 4,
        Rerender, Rerender, Unmount]) = [1]
   \<and> \<not> mounted (run [Replace fileA, Rerender, Rerender, Loaded 1 3 4, Loaded 2 3 4,
        Rerender, Rerender, Unmount])"
  by (simp add: eval_session)

subsection \<open>The derived URL and metadata\<close>

lemma paired_settle:
  "paired (result m) \<Longrightarrow> paired v \<Longrightarrow> paired (result (settle pid (Resolved v) m))"
  using settle_result_cases [of pid v m] by auto

lemma paired_render: "paired (result m) \<Longrightarrow> paired (result (render (uploader_args n) m))"
  by (simp add: render_def run_effect_def uploader_args_def loading_def paired_def)

lemma paired_step:
  assumes "paired (shown u) \<and> paired (result (memo u))"
  shows "paired (shown (step ev u)) \<and> paired (result (memo (step ev u)))"
proof (cases ev)
  case (Replace f)
  with assms show ?thesis by (simp add: handleFileUpload_def setImageBlob_def)
next
  case Cancel
  with assms show ?thesis by (simp add: cancel_def setImageBlob_def)
next
  case (Loaded pid w h)
  have "paired (Some x, Some md)" for x :: url and md :: metadata
    by (simp add: paired_def)
  with assms Loaded show ?thesis
    by (auto simp: loaded_def paired_settle split: option.splits)
next
  case Rerender
  have "paired (None, None)"
    by (simp add: paired_def)
  with assms Rerender show ?thesis
    by (auto simp: rerender_def Let_def paired_settle paired_render split: option.splits)
next
  case Unmount
  with assms show ?thesis by (simp add: unmount_def)
qed

text \<open>
  In every state of the session the URL and the metadata that the last render returned are
  both present or both absent.
\<close>

lemma derived_pair_invariant:
  "(imageBlobUrl (run evs) = None \<longleftrightarrow> imageMetadata (run evs) = None)"
proof -
  have "paired (shown (fold step evs u)) \<and> paired (result (memo (fold step evs u)))"
    if "paired (shown u) \<and> paired (result (memo u))" for u
    using that by (induction evs arbitrary: u) (simp_all add: paired_step)
  moreover have "paired (shown useFileUploader) \<and> paired (result (memo useFileUploader))"
    by (simp add: useFileUploader_def loading_def paired_def mount_def run_effect_def settle_def
        uploader_args_def handler_of_def)
  ultimately have "paired (shown (run evs))"
    by (simp add: run_def)
  then show ?thesis
    by (cases "shown (run evs)") (auto simp: paired_def imageBlobUrl_def imageMetadata_def split: option.splits)
qed

text \<open>
  Claim C4 at two concrete runs. The result type of the session documents \<open>imageBlobUrl\<close>
  as the object URL of \<open>imageBlob\<close>, and \<open>cancel\<close> as resetting the upload state. A file
  is chosen and cancelled, and its image loads afterwards: the next render returns no source
  file, and both the URL and the metadata of the cancelled file; only the render after that
  returns neither, and revokes the URL. A file A is replaced by a file B and the image of A
  loads: the next render returns B as the source file, and the URL and the metadata of A.
\<close>

theorem stale_derivation_after_cancel:
  "shown_blob (run [Replace fileA, Rerender, Cancel, Rerender, Loaded 1 30 40, Rerender]) = None
   \<and> imageBlob (run [Replace fileA, Rerender, Cancel, Rerender, Loaded 1 30 40, Rerender]) = None
   \<and> imageBlobUrl (run [Replace fileA, Rerender, Cancel, Rerender, Loaded 1 30 40, Rerender]) = Some 0
   \<and> imageMetadata (run [Replace fileA, Rerender, Cancel, Rerender, Loaded 1 30 40, Rerender]) =
       Some \<lparr>width = 30, height = 40, name = fname fileA\<rparr>
   \<and> imageBlobUrl (run [Replace fileA, Rerender, Cancel, Rerender, Loaded 1 30 40, Rerender, Rerender]) = None
   \<and> revoked (run [Replace fileA, Rerender, Cancel, Rerender, Loaded 1 30 40, Rerender, Rerender]) = [0]
   \<and> shown_blob (run [Replace fileA, Rerender, Replace fileB, Rerender, Loaded 1 30 40, Rerender]) = Some fileB
   \<and> imageMetadata (run [Replace fileA, Rerender, Replace fileB, Rerender, Loaded 1 30 40, Rerender]) =
       Some \<lparr>width = 30, height = 40, name = fname fileA\<rparr>
   \<and> created (run [Replace fileA, Rerender, Replace fileB, Rerender, Loaded 1 30 40, Rerender]) ! 0 = (0, fileA)
   \<and> imageBlobUrl (run [Replace fileA, Rerender, Replace fileB, Rerender, Loaded 1 30 40, Rerender]) = Some 0"
  by (simp add: eval_session)

section \<open>Properties of the rounded-border pipeline\<close>

lemma background_over_clear: "over B (css_colour bg) (css_colour Transparent) = css_colour bg"
  by (cases bg) (simp_all add: over_def css_colour_def)

lemma rounded_pixels:
  assumes "clip c = (\<lambda>p. 255)"
    and "0 \<le> fst p" "fst p < int (width md)" "0 \<le> snd p" "snd p < int (height md)"
    and "w = real (width md)" "h = real (height md)"
    and "cov = coverage B
      [MoveTo r 0, LineTo (w - r) 0, QuadraticCurveTo w 0 w r, LineTo w (h - r),
       QuadraticCurveTo w h (w - r) h, LineTo r h, QuadraticCurveTo 0 h 0 (h - r), LineTo 0 r,
       QuadraticCurveTo 0 0 r 0, ClosePath] p"
  shows "pixels (exec B (rounded_onload md r bg) c) p =
     (if cov = 0 then css_colour bg
      else if 255 \<le> cov then over B (sample B 0 0 w h p) (css_colour bg)
      else mix B cov (over B (sample B 0 0 w h p) (css_colour bg)) (css_colour bg))"
proof -
  have r: "inside_rect 0 0 (real (width md)) (real (height md)) p"
    using assms(2-5) by (simp add: inside_rect_def)
  show ?thesis
    using r assms(1) background_over_clear [of B bg]
    by (simp add: assms(6-8) exec_def rounded_onload_def rounded_path_def Let_def paint_def both_def
        rect_cover_def)
qed

text \<open>
  Claim C5, as the specification states it, at an image of 12 by 12 pixels that is
  transparent at the pixel \<open>(5, 5)\<close>, with the radius 6 and the white background. The path
  covers the pixel, which lies in the middle of the image and in none of the corners, and
  the exported raster has the white of the background there.
\<close>

theorem background_shows_through_image:
  "coverage (quad_browser holed_image) (rounded_path 12 12 6) (5, 5) = 255
   \<and> alpha (sample (quad_browser holed_image) 0 0 12 12 (5, 5)) = 0
   \<and> pixels (exec (quad_browser holed_image) (rounded_onload md12 6 White) blank) (5, 5) =
        \<lparr>red = 255, green = 255, blue = 255, alpha = 255\<rparr>
   \<and> pixels (exec (quad_browser holed_image) (rounded_onload md12 6 White) blank) (6, 5) =
        \<lparr>red = 10, green = 20, blue = 30, alpha = 255\<rparr>"
  by (simp add: quad_browser_def holed_image_def quad_coverage_def inside_path_def path_radius_def
      path_width_def path_height_def cut_off_def rounded_path_def rounded_onload_def md12_def
      blank_def exec_def paint_def both_def rect_cover_def inside_rect_def over_def css_colour_def
      Let_def power2_eq_square)

text \<open>
  Claim C5, amended. The handler draws on a context whose clipping region is the whole
  canvas (every \<open>save\<close> of the handler has its \<open>restore\<close>), whatever the canvas held
  before. Take a pixel of the canvas, which has the size of the image, and let \<open>cov\<close> be
  what the path of lines 69 to 78 covers of it. If the path misses the pixel, the exported
  raster has the background there: no opacity under the transparent background, opaque
  white under the white one, opaque black under the black one. If the path covers the
  pixel, the raster has there the image composited over the background, which was filled
  first over the whole canvas: the image alone where the image is opaque, and the
  background where the image is transparent. If the path covers the pixel in part, at the
  smoothed edge, the raster has there what the browser mixes of the two.
\<close>

theorem rounded_corner_pixels:
  assumes "clip c = (\<lambda>p. 255)"
    and "0 \<le> fst p" "fst p < int (width md)" "0 \<le> snd p" "snd p < int (height md)"
    and "w = real (width md)" "h = real (height md)"
    and "cov = coverage B
      [MoveTo r 0, LineTo (w - r) 0, QuadraticCurveTo w 0 w r, LineTo w (h - r),
       QuadraticCurveTo w h (w - r) h, LineTo r h, QuadraticCurveTo 0 h 0 (h - r), LineTo 0 r,
       QuadraticCurveTo 0 0 r 0, ClosePath] p"
    and "out = pixels (exec B (rounded_onload md r bg) c) p"
    and "img = sample B 0 0 w h p"
  shows "(cov = 0 \<and> bg = Transparent \<longrightarrow> alpha out = 0)
    \<and> (cov = 0 \<and> bg = White \<longrightarrow> out = \<lparr>red = 255, green = 255, blue = 255, alpha = 255\<rparr>)
    \<and> (cov = 0 \<and> bg = Black \<longrightarrow> out = \<lparr>red = 0, green = 0, blue = 0, alpha = 255\<rparr>)
    \<and> (255 \<le> cov \<longrightarrow> out = over B img (css_colour bg))
    \<and> (255 \<le> cov \<and> alpha img = 255 \<longrightarrow> out = img)
    \<and> (255 \<le> cov \<and> alpha img = 0 \<longrightarrow> out = css_colour bg)
    \<and> (0 < cov \<and> cov < 255 \<longrightarrow> out = mix B cov (over B img (css_colour bg)) (css_colour bg))"
  using rounded_pixels [OF assms(1-8), of bg] assms(9,10)
  by (auto simp: css_colour_def over_def)

text \<open>
  The same on a canvas of 12 by 12 pixels with the radius 6, for a browser that rasterises
  the path and whose image is opaque: the pixel \<open>(0, 0)\<close> lies in the corner that the path
  cuts off, the pixel \<open>(1, 1)\<close> on the curve, and the pixel \<open>(5, 5)\<close> inside.
\<close>

theorem rounded_corner_pixels_witness:
  "alpha (pixels (exec (quad_browser opaque_image) (rounded_onload md12 6 Transparent) blank) (0, 0)) = 0
   \<and> pixels (exec (quad_browser opaque_image) (rounded_onload md12 6 White) blank) (0, 0) =
        \<lparr>red = 255, green = 255, blue = 255, alpha = 255\<rparr>
   \<and> pixels (exec (quad_browser opaque_image) (rounded_onload md12 6 Black) blank) (0, 0) =
        \<lparr>red = 0, green = 0, blue = 0, alpha = 255\<rparr>
   \<and> pixels (exec (quad_browser opaque_image) (rounded_onload md12 6 White) blank) (5, 5) =
        \<lparr>red = 10, green = 20, blue = 30, alpha = 255\<rparr>
   \<and> pixels (exec (quad_browser opaque_image) (rounded_onload md12 6 White) blank) (1, 1) =
        \<lparr>red = 132, green = 137, blue = 142, alpha = 255\<rparr>"
proof -
  let ?B = "quad_browser opaque_image"
  let ?path = "[MoveTo 6 0, LineTo (real (width md12) - 6) 0,
       QuadraticCurveTo (real (width md12)) 0 (real (width md12)) 6,
       LineTo (real (width md12)) (real (height md12) - 6),
       QuadraticCurveTo (real (width md12)) (real (height md12)) (real (width md12) - 6) (real (height md12)),
       LineTo 6 (real (height md12)), QuadraticCurveTo 0 (real (height md12)) 0 (real (height md12) - 6),
       LineTo 0 6, QuadraticCurveTo 0 0 6 0, ClosePath]"
  have c: "clip blank = (\<lambda>p. 255)" by (simp add: blank_def)
  have p0: "0 \<le> fst (0::int, 0::int)" "fst (0::int, 0::int) < int (width md12)"
    "0 \<le> snd (0::int, 0::int)" "snd (0::int, 0::int) < int (height md12)"
    by (simp_all add: md12_def)
  have p1: "0 \<le> fst (1::int, 1::int)" "fst (1::int, 1::int) < int (width md12)"
    "0 \<le> snd (1::int, 1::int)" "snd (1::int, 1::int) < int (height md12)"
    by (simp_all add: md12_def)
  have p5: "0 \<le> fst (5::int, 5::int)" "fst (5::int, 5::int) < int (width md12)"
    "0 \<le> snd (5::int, 5::int)" "snd (5::int, 5::int) < int (height md12)"
    by (simp_all add: md12_def)
  have cov: "coverage ?B ?path (0, 0) = 0" "coverage ?B ?path (1, 1) = 128"
    "coverage ?B ?path (5, 5) = 255"
    by (simp_all add: quad_browser_def quad_coverage_def inside_path_def path_radius_def
        path_width_def path_height_def cut_off_def md12_def Let_def power2_eq_square)
  have img: "sample ?B 0 0 (real (width md12)) (real (height md12)) p =
      \<lparr>red = 10, green = 20, blue = 30, alpha = 255\<rparr>" for p
    by (simp add: quad_browser_def opaque_image_def)
  have mx: "mix ?B 128 \<lparr>red = 10, green = 20, blue = 30, alpha = 255\<rparr> (css_colour White) =
      \<lparr>red = 132, green = 137, blue = 142, alpha = 255\<rparr>"
    by (simp add: quad_browser_def css_colour_def)
  from rounded_corner_pixels [OF c p0 refl refl refl refl refl, of ?B 6 Transparent]
    rounded_corner_pixels [OF c p0 refl refl refl refl refl, of ?B 6 White]
    rounded_corner_pixels [OF c p0 refl refl refl refl refl, of ?B 6 Black]
    rounded_corner_pixels [OF c p5 refl refl refl refl refl, of ?B 6 White]
    rounded_corner_pixels [OF c p1 refl refl refl refl refl, of ?B 6 White]
    cov img mx
  show ?thesis by (simp add: over_def)
qed

text \<open>
  Claim C6, as the specification states it, at the radius \<open>-5\<close>: the path starts at
  \<open>x = -5\<close>, where a radius clamped to zero would start it at \<open>x = 0\<close>.
\<close>

theorem radius_not_clamped:
  "rounded_path 4 4 (-5) ! 0 = MoveTo (-5) 0
   \<and> rounded_path 4 4 (max 0 (-5)) ! 0 = MoveTo 0 0
   \<and> rounded_onload md44 (-5) White \<noteq> rounded_onload md44 (max 0 (-5)) White"
  by (simp add: rounded_path_def rounded_onload_def md44_def Let_def)

text \<open>
  Claim C6, amended. The handler builds the path from the radius as it was passed: any two
  different radii give different paths, so neither a negative radius nor one beyond half of
  the smaller side is clamped. The canvas has the size of the image, and the image is drawn
  at that size.
\<close>

theorem radius_used_as_given:
  "(rounded_onload md r bg = rounded_onload md r' bg \<longleftrightarrow> r = r')
   \<and> rounded_onload md r bg ! 5 = MoveTo r 0
   \<and> rounded_onload md r bg ! 6 = LineTo (real (width md) - r) 0
   \<and> rounded_canvasProps md = (real (width md), real (height md))
   \<and> rounded_onload md r bg ! 16 = DrawImage 0 0 (real (width md)) (real (height md))"
  by (auto simp: rounded_path_def rounded_onload_def rounded_canvasProps_def Let_def)

section \<open>Properties of the SVG pipeline\<close>

text \<open>
  Claim C7, as the specification states it, at an image of 6 by 4 pixels and the scale
  \<open>1.3\<close>: the width the code computes is the double \<open>7.800000000000001\<close>, the canvas
  has 7 by 5 pixels, and the width rounds to 8. At an image of 100 by 5 pixels and the
  scale \<open>0.57\<close> the width the code computes is the double below 57, and the canvas is 56
  pixels wide.
\<close>

theorem svg_size_not_rounded:
  "svg_canvasProps md64 d13 = (Some (8782019273372468, - 50), Some (5854679515581645, - 50))
   \<and> canvas_size (svg_canvasProps md64 d13) = (Some 7, Some 5)
   \<and> round (dval (8782019273372468, - 50)) = 8
   \<and> round (real (width md64) * dval d13) = 8
   \<and> svg_canvasProps md100 d057 = (Some (8022036836253695, - 47), Some (6417629469002956, - 51))
   \<and> canvas_size (svg_canvasProps md100 d057) = (Some 56, Some 2)
   \<and> round (real (width md100) * dval d057) = 57"
  by (simp add: eval_double md64_def md100_def d13_def d057_def round_def)

lemma bits_le: "n < 2 ^ k \<Longrightarrow> bits n \<le> k"
proof (induction k arbitrary: n)
  case 0
  then show ?case by (simp add: bits.simps)
next
  case (Suc k)
  show ?case
  proof (cases "n = 0")
    case True
    then show ?thesis by (simp add: bits.simps)
  next
    case False
    from Suc.prems have "n div 2 < 2 ^ k" by simp
    then have "bits (n div 2) \<le> k" by (rule Suc.IH)
    with False show ?thesis by (subst bits.simps) simp
  qed
qed

text \<open>A whole number below \<open>2 ^ 53\<close> is a double, and the product with it is exact.\<close>

lemma fmul_of_nat:
  assumes "w * k < 2 ^ 53"
  shows "fmul w (double_of_nat k) = Some (double_of_nat (w * k))"
proof -
  from assms have b: "bits (w * k) - 53 = 0"
    using bits_le [of "w * k" 53] by simp
  have "(2::nat) ^ 53 \<le> 2 ^ 1024" by (rule power_increasing) simp_all
  with assms have "\<not> 2 ^ 1024 \<le> w * k" by linarith
  with b show ?thesis
    by (simp add: fmul_def round53_def double_of_nat_def overflows_def Let_def)
qed

lemma dim_of_nat:
  assumes "n < 2 ^ 31"
  shows "canvas_dim dflt (Some (double_of_nat n)) = Some n"
proof -
  have "real n < 2 ^ 31 \<and> (n \<noteq> 0 \<longrightarrow> 1 / 10 ^ 6 \<le> real n)"
  proof
    from assms have "real n < real (2 ^ 31)" by (simp only: of_nat_less_iff)
    then show "real n < 2 ^ 31" by simp
    show "n \<noteq> 0 \<longrightarrow> 1 / 10 ^ 6 \<le> real n"
    proof
      assume "n \<noteq> 0"
      then have "1 \<le> real n" by simp
      then show "1 / 10 ^ 6 \<le> real n" by simp
    qed
  qed
  then show ?thesis
    by (auto simp: canvas_dim_def plain_def double_of_nat_def dval_def)
qed

lemma dval_nonneg: "0 \<le> dval d"
  by (simp add: dval_def)

lemma floor_is_round:
  fixes x :: real
  assumes "0 \<le> x"
  shows "int (nat \<lfloor>x\<rfloor>) = round x \<longleftrightarrow> frac x < 1 / 2"
proof -
  from assms have n: "int (nat \<lfloor>x\<rfloor>) = \<lfloor>x\<rfloor>" by simp
  have x: "x = of_int \<lfloor>x\<rfloor> + frac x" by (simp add: frac_def)
  have f: "0 \<le> frac x" "frac x < 1" by (simp_all add: frac_lt_1)
  show ?thesis
  proof (cases "frac x < 1 / 2")
    case True
    with x f have "of_int \<lfloor>x\<rfloor> \<le> x + 1 / 2 \<and> x + 1 / 2 < of_int \<lfloor>x\<rfloor> + 1" by linarith
    then have "\<lfloor>x + 1 / 2\<rfloor> = \<lfloor>x\<rfloor>" by (simp add: floor_eq_iff)
    with True n show ?thesis by (simp add: round_def)
  next
    case False
    with x f have "of_int (\<lfloor>x\<rfloor> + 1) \<le> x + 1 / 2 \<and> x + 1 / 2 < of_int (\<lfloor>x\<rfloor> + 1) + 1"
      by (simp only: of_int_add of_int_1) linarith
    then have "\<lfloor>x + 1 / 2\<rfloor> = \<lfloor>x\<rfloor> + 1" by (simp only: floor_eq_iff)
    with False n show ?thesis by (simp add: round_def)
  qed
qed

text \<open>
  Claim C7, amended. The code sizes the canvas and the drawing to the products of the
  dimensions of the image and the scale, computed in double arithmetic, and rounds nothing.
  Where the products \<open>a\<close> and \<open>b\<close> print in plain notation, the canvas has their integer
  parts as its size, and an integer part is the rounded product exactly where the
  fractional part of the product is below one half. For a scale that is a whole number
  \<open>k\<close>, with products below \<open>2 ^ 31\<close>, the products are exact and the canvas has the size
  \<open>w * k\<close> by \<open>h * k\<close>. At the scale 1 the handler clears the canvas and draws the image
  at its own size.
\<close>

theorem svg_size_is_product:
  assumes "svg_canvasProps md s = (Some a, Some b)"
    and "plain a" "plain b"
    and "width md * k < 2 ^ 31" "height md * k < 2 ^ 31"
    and "width md < 2 ^ 31" "height md < 2 ^ 31"
  shows "svg_canvasProps md s = (fmul (width md) s, fmul (height md) s)
   \<and> canvas_size (svg_canvasProps md s) = (Some (nat \<lfloor>dval a\<rfloor>), Some (nat \<lfloor>dval b\<rfloor>))
   \<and> (int (nat \<lfloor>dval a\<rfloor>) = round (dval a) \<longleftrightarrow> frac (dval a) < 1 / 2)
   \<and> (int (nat \<lfloor>dval b\<rfloor>) = round (dval b) \<longleftrightarrow> frac (dval b) < 1 / 2)
   \<and> svg_canvasProps md (double_of_nat k) =
        (Some (double_of_nat (width md * k)), Some (double_of_nat (height md * k)))
   \<and> canvas_size (svg_canvasProps md (double_of_nat k)) = (Some (width md * k), Some (height md * k))
   \<and> svg_onload md (double_of_nat 1) cw ch =
        [ClearRect 0 0 (real cw) (real ch), DrawImage 0 0 (real (width md)) (real (height md))]"
proof (intro conjI)
  have lt: "(2::nat) ^ 31 < 2 ^ 53" by (rule power_strict_increasing) simp_all
  from assms(4) lt have wk: "width md * k < 2 ^ 53" by (rule less_trans)
  from assms(5) lt have hk: "height md * k < 2 ^ 53" by (rule less_trans)
  from assms(6) lt have w1: "width md * 1 < 2 ^ 53" by simp
  from assms(7) lt have h1: "height md * 1 < 2 ^ 53" by simp
  show "svg_canvasProps md s = (fmul (width md) s, fmul (height md) s)"
    by (simp add: svg_canvasProps_def svg_size_def)
  show "canvas_size (svg_canvasProps md s) = (Some (nat \<lfloor>dval a\<rfloor>), Some (nat \<lfloor>dval b\<rfloor>))"
    by (simp add: assms(1-3) canvas_size_def canvas_dim_def)
  show "int (nat \<lfloor>dval a\<rfloor>) = round (dval a) \<longleftrightarrow> frac (dval a) < 1 / 2"
    by (rule floor_is_round) (rule dval_nonneg)
  show "int (nat \<lfloor>dval b\<rfloor>) = round (dval b) \<longleftrightarrow> frac (dval b) < 1 / 2"
    by (rule floor_is_round) (rule dval_nonneg)
  show p: "svg_canvasProps md (double_of_nat k) =
      (Some (double_of_nat (width md * k)), Some (double_of_nat (height md * k)))"
    by (simp only: svg_canvasProps_def svg_size_def fmul_of_nat [OF wk] fmul_of_nat [OF hk])
  show "canvas_size (svg_canvasProps md (double_of_nat k)) = (Some (width md * k), Some (height md * k))"
    by (simp only: p canvas_size_def fst_conv snd_conv dim_of_nat [OF assms(4)] dim_of_nat [OF assms(5)])
  have "svg_size md (double_of_nat 1) = (Some (double_of_nat (width md)), Some (double_of_nat (height md)))"
    using fmul_of_nat [OF w1] fmul_of_nat [OF h1] by (simp add: svg_size_def)
  then show "svg_onload md (double_of_nat 1) cw ch =
      [ClearRect 0 0 (real cw) (real ch), DrawImage 0 0 (real (width md)) (real (height md))]"
    by (simp add: svg_onload_def double_of_nat_def dval_def)
qed

text \<open>
  The same at an image of 6 by 4 pixels, at the scale \<open>1.0625\<close>, where the sizes \<open>6.375\<close>
  and \<open>4.25\<close> give a canvas of 6 by 4 pixels, and at the scale 2.
\<close>

theorem svg_size_is_product_witness:
  "canvas_size (svg_canvasProps md64 d10625) = (Some 6, Some 4)
   \<and> round (dval (102, - 4)) = 6
   \<and> canvas_size (svg_canvasProps md64 (double_of_nat 2)) = (Some 12, Some 8)
   \<and> svg_onload md64 (double_of_nat 1) 6 4 = [ClearRect 0 0 6 4, DrawImage 0 0 6 4]"
proof -
  have p: "svg_canvasProps md64 d10625 = (Some (102, - 4), Some (68, - 4))"
    by (simp add: eval_double md64_def d10625_def)
  have pl: "plain (102, - 4)" "plain (68, - 4)"
    by (simp_all add: plain_def dval_def)
  have b: "width md64 * 2 < 2 ^ 31" "height md64 * 2 < 2 ^ 31" "width md64 < 2 ^ 31"
    "height md64 < 2 ^ 31"
    by (simp_all add: md64_def)
  have f: "frac (dval (102, - 4)) < 1 / 2"
    by (simp add: dval_def frac_def)
  have fl: "nat \<lfloor>dval (102, - 4)\<rfloor> = 6" "nat \<lfloor>dval (68, - 4)\<rfloor> = 4"
    by (simp_all add: dval_def)
  have m: "width md64 * 2 = 12" "height md64 * 2 = 8" "real (width md64) = 6"
    "real (height md64) = 4"
    by (simp_all add: md64_def)
  note t = svg_size_is_product [OF p pl b, of 6 4]
  have c1: "canvas_size (svg_canvasProps md64 d10625) = (Some 6, Some 4)"
    using t [THEN conjunct2, THEN conjunct1] by (simp only: fl)
  have c2: "round (dval (102, - 4)) = 6"
    using t [THEN conjunct2, THEN conjunct2, THEN conjunct1] f fl by simp
  have c3: "canvas_size (svg_canvasProps md64 (double_of_nat 2)) = (Some 12, Some 8)"
    using t [THEN conjunct2, THEN conjunct2, THEN conjunct2, THEN conjunct2, THEN conjunct2,
        THEN conjunct1]
    by (simp only: m)
  have c4: "svg_onload md64 (double_of_nat 1) 6 4 = [ClearRect 0 0 6 4, DrawImage 0 0 6 4]"
    using t [THEN conjunct2, THEN conjunct2, THEN conjunct2, THEN conjunct2, THEN conjunct2,
        THEN conjunct2]
    by (simp add: m)
  from c1 c2 c3 c4 show ?thesis
    by (intro conjI)
qed

text \<open>
  Claim C8, as the specification states it, at two names: of \<open>photo.png\<close> and of
  \<open>icon.SVG\<close> the code removes no extension.
\<close>

theorem svg_name_keeps_other_extension:
  "svg_download_name ''photo.png'' ''2'' = ''photo.png-2x.png''
   \<and> svg_download_name ''icon.SVG'' ''2'' = ''icon.SVG-2x.png''
   \<and> svg_download_name ''logo.svg'' ''2'' = ''logo-2x.png''"
  by (simp add: svg_download_name_def)

lemma replace_first_absent:
  "pat \<noteq> [] \<Longrightarrow> \<not> sublist pat s \<Longrightarrow> replace_first pat rep s = s"
proof (induction s)
  case Nil
  then show ?case by simp
next
  case (Cons c cs)
  from Cons.prems(2) have "\<not> prefix pat (c # cs)" "\<not> sublist pat cs"
    by (auto simp: sublist_Cons_right)
  with Cons show ?case by simp
qed

lemma replace_first_suffix:
  assumes "\<not> sublist ''.svg'' base"
  shows "replace_first ''.svg'' [] (base @ ''.svg'') = base"
  using assms
proof (induction base)
  case Nil
  then show ?case by simp
next
  case (Cons c cs)
  from Cons.prems have ns: "\<not> sublist ''.svg'' cs" and np: "\<not> prefix ''.svg'' (c # cs)"
    by (auto simp: sublist_Cons_right)
  have no: "\<not> prefix ''.svg'' (c # cs @ ''.svg'')"
  proof
    assume p: "prefix ''.svg'' (c # cs @ ''.svg'')"
    show False
    proof (cases "length cs \<ge> 3")
      case True
      then obtain a b d rest where "cs = a # b # d # rest"
        by (metis Suc_le_length_iff numeral_3_eq_3)
      with p np show False by simp
    next
      case False
      then consider "cs = []" | a where "cs = [a]" | a b where "cs = [a, b]"
        by (cases cs; cases "tl cs"; cases "tl (tl cs)") auto
      then show False using p by cases auto
    qed
  qed
  have "replace_first ''.svg'' [] (c # cs @ ''.svg'') = c # replace_first ''.svg'' [] (cs @ ''.svg'')"
    by (simp only: replace_first.simps no if_False)
  with Cons.IH [OF ns] show ?case by (simp only: append_Cons)
qed

text \<open>
  Claim C8, amended. For a name that ends in \<open>.svg\<close> and has no \<open>.svg\<close> before that, the
  export is named after the rest of the name, then a hyphen, the scale, and \<open>x.png\<close>. A
  name in which \<open>.svg\<close> does not occur is kept whole. The name of the export is a function of
  the name of the source and of the scale.
\<close>

theorem svg_download_name_shape:
  "(\<not> sublist ''.svg'' base \<longrightarrow>
      svg_download_name (base @ ''.svg'') scale_text = base @ ''-'' @ scale_text @ ''x.png'')
   \<and> (\<not> sublist ''.svg'' nm \<longrightarrow>
      svg_download_name nm scale_text = nm @ ''-'' @ scale_text @ ''x.png'')"
  by (simp add: svg_download_name_def replace_first_suffix replace_first_absent)

text \<open>The same at the names \<open>my.logo.svg\<close> and \<open>photo.png\<close>.\<close>

theorem svg_download_name_shape_witness:
  "svg_download_name (''my.logo'' @ ''.svg'') ''16'' = ''my.logo'' @ ''-'' @ ''16'' @ ''x.png''
   \<and> svg_download_name ''photo.png'' ''2'' = ''photo.png'' @ ''-'' @ ''2'' @ ''x.png''"
proof -
  have a: "\<not> sublist ''.svg'' ''my.logo''" "\<not> sublist ''.svg'' ''photo.png''"
    by (simp_all add: sublist_Cons_right)
  from svg_download_name_shape [of "''my.logo''" "''16''" "''photo.png''"]
    svg_download_name_shape [of "''my.logo''" "''2''" "''photo.png''"] a
  show ?thesis by blast
qed

section \<open>Properties of the export\<close>

text \<open>
  Claim C9, as the specification states it, where the canvas and its context are there, the
  image loads and \<open>toBlob\<close> hands over no blob: in both tools the promise of
  \<open>convertToPng\<close> is fulfilled, and the error stays in the promise of \<open>saveImage\<close>.
\<close>

theorem encode_error_not_propagated:
  "blob env_no_blob = None
   \<and> promise (rounded_convertToPng env_no_blob md44 2 White) = Inr ()
   \<and> promise (svg_convertToPng env_no_blob md64 (double_of_nat 2) ''2'') = Inr ()
   \<and> save_promise (rounded_convertToPng env_no_blob md44 2 White) = Some (Inl NoBlob)
   \<and> save_promise (svg_convertToPng env_no_blob md64 (double_of_nat 2) ''2'') = Some (Inl NoBlob)"
  by (simp add: eval_export)

lemma rounded_export_fields:
  "promise (rounded_convertToPng env md r bg) =
     (if canvas_present env \<and> context_2d env then Inr () else Inl NoContext)"
  "save_promise (rounded_convertToPng env md r bg) =
     (if canvas_present env \<and> context_2d env \<and> image_loads env
      then Some (case blob env of None \<Rightarrow> Inl NoBlob | Some b \<Rightarrow> Inr ()) else None)"
  "downloads (rounded_convertToPng env md r bg) =
     (if canvas_present env \<and> context_2d env \<and> image_loads env
      then (case blob env of None \<Rightarrow> [] | Some b \<Rightarrow> [rounded_download_name (name md)]) else [])"
  by (simp_all add: rounded_convertToPng_def saveImage_def Let_def split: option.splits)

lemma svg_export_fields:
  "promise (svg_convertToPng env md s scale_text) =
     (if canvas_present env \<and> context_2d env then Inr () else Inl NoContext)"
  "save_promise (svg_convertToPng env md s scale_text) =
     (if canvas_present env \<and> context_2d env \<and> image_loads env
      then Some (case blob env of None \<Rightarrow> Inl NoBlob | Some b \<Rightarrow> Inr ()) else None)"
  "downloads (svg_convertToPng env md s scale_text) =
     (if canvas_present env \<and> context_2d env \<and> image_loads env
      then (case blob env of None \<Rightarrow> [] | Some b \<Rightarrow> [svg_download_name (name md) scale_text]) else [])"
  by (simp_all add: svg_convertToPng_def saveImage_def Let_def split: option.splits)

lemma export_summary:
  assumes p: "promise x = (if canvas_present env \<and> context_2d env then Inr () else Inl NoContext)"
    and s: "save_promise x =
     (if canvas_present env \<and> context_2d env \<and> image_loads env
      then Some (case blob env of None \<Rightarrow> Inl NoBlob | Some b \<Rightarrow> Inr ()) else None)"
    and d: "downloads x =
     (if canvas_present env \<and> context_2d env \<and> image_loads env
      then (case blob env of None \<Rightarrow> [] | Some b \<Rightarrow> [nm]) else [])"
  shows "(promise x = Inl NoContext \<longleftrightarrow> \<not> (canvas_present env \<and> context_2d env))
    \<and> (isl (promise x) \<longleftrightarrow> promise x = Inl NoContext)
    \<and> (save_promise x = Some (Inl NoBlob) \<longleftrightarrow>
         canvas_present env \<and> context_2d env \<and> image_loads env \<and> blob env = None)
    \<and> (failed x \<longrightarrow> downloads x = [])
    \<and> (downloads x \<noteq> [] \<longleftrightarrow>
         canvas_present env \<and> context_2d env \<and> image_loads env \<and> blob env \<noteq> None)"
  unfolding failed_def p s d
  by (cases "blob env") auto

text \<open>
  Claim C9, amended. In both tools the promise of \<open>convertToPng\<close> is rejected exactly when
  there is no canvas or no 2D context, with the error of the context, and in no other case.
  When the context is there, the image loads and \<open>toBlob\<close> hands over no blob, the promise
  of \<open>saveImage\<close> is rejected with the error of the blob; nothing waits for that promise.
  Whenever either promise is rejected no download is started; a download is started exactly
  when the context is there, the image loads and there is a blob.
\<close>

theorem export_failures:
  assumes "x = rounded_convertToPng env md r bg \<or> x = svg_convertToPng env md s scale_text"
  shows "(promise x = Inl NoContext \<longleftrightarrow> \<not> (canvas_present env \<and> context_2d env))
    \<and> (isl (promise x) \<longleftrightarrow> promise x = Inl NoContext)
    \<and> (save_promise x = Some (Inl NoBlob) \<longleftrightarrow>
         canvas_present env \<and> context_2d env \<and> image_loads env \<and> blob env = None)
    \<and> (failed x \<longrightarrow> downloads x = [])
    \<and> (downloads x \<noteq> [] \<longleftrightarrow>
         canvas_present env \<and> context_2d env \<and> image_loads env \<and> blob env \<noteq> None)"
  using assms
proof
  assume "x = rounded_convertToPng env md r bg"
  then show ?thesis
    by (intro export_summary) (simp_all only: rounded_export_fields)
next
  assume "x = svg_convertToPng env md s scale_text"
  then show ?thesis
    by (intro export_summary) (simp_all only: svg_export_fields)
qed

text \<open>The same without a context in the rounded tool, and without a blob in the SVG tool.\<close>

theorem export_failures_witness:
  "promise (rounded_convertToPng env_no_context md44 2 White) = Inl NoContext
   \<and> save_promise (svg_convertToPng env_no_blob md64 (double_of_nat 2) ''2'') = Some (Inl NoBlob)
   \<and> downloads (svg_convertToPng env_no_blob md64 (double_of_nat 2) ''2'') = []
   \<and> downloads (rounded_convertToPng env_no_context md44 2 White) = []"
proof -
  have a: "\<not> (canvas_present env_no_context \<and> context_2d env_no_context)"
    "canvas_present env_no_blob \<and> context_2d env_no_blob \<and> image_loads env_no_blob \<and> blob env_no_blob = None"
    by (simp_all add: env_no_context_def env_no_blob_def)
  have f: "failed (svg_convertToPng env_no_blob md64 (double_of_nat 2) ''2'')"
    "failed (rounded_convertToPng env_no_context md44 2 White)"
    by (simp_all add: eval_export)
  from export_failures [of "rounded_convertToPng env_no_context md44 2 White" env_no_context md44 2 White "double_of_nat 2" "''2''"]
    export_failures [of "svg_convertToPng env_no_blob md64 (double_of_nat 2) ''2''" env_no_blob md64 2 White "double_of_nat 2" "''2''"]
    a f
  show ?thesis by blast
qed

section \<open>Properties of what the tools accept\<close>

lemma setImageBlob_stores: "mounted u \<Longrightarrow> imageBlob (setImageBlob b u) = b"
  by (cases b) (auto simp: setImageBlob_def Let_def)

text \<open>
  The session checks no type: the first file of a change event of the file input, and any
  file given to \<open>handleFileUpload\<close>, becomes the source file whatever its type, and a change
  event without a file changes nothing.
\<close>

lemma session_checks_no_type:
  assumes "mounted u"
  shows "imageBlob (handleFileUploadEvent (f # fs) u) = Some f
    \<and> imageBlob (handleFileUpload f u) = Some f
    \<and> handleFileUploadEvent [] u = u"
  using assms
  by (simp add: handleFileUploadEvent_def handleFileUpload_def setImageBlob_stores)

text \<open>
  Claim C10 at a file of type \<open>image/png\<close>. The SVG tool gives its list, \<open>image/svg+xml\<close>
  and \<open>.svg\<close>, to the drop zone, and \<open>.svg\<close> to the file input; the file is on neither.
  The session gives its own list, with \<open>image/*\<close> on it, to the paste hook, whatever the
  tool. Handed over by the change event of the file input, or by \<open>handleFileUpload\<close>, the
  file becomes the source file of the session.
\<close>

theorem svg_session_accepts_png:
  "ftype fileB = ''image/png''
   \<and> ftype fileB \<notin> set svg_acceptedFileTypes
   \<and> svg_accept = ''.svg''
   \<and> \<not> suffix svg_accept (fname fileB)
   \<and> ''image/*'' \<in> set uploader_acceptedFileTypes
   \<and> uploader_acceptedFileTypes \<noteq> svg_acceptedFileTypes
   \<and> imageBlob (handleFileUploadEvent [fileB] useFileUploader) = Some fileB
   \<and> imageBlob (handleFileUpload fileB useFileUploader) = Some fileB"
  by (simp add: eval_session handleFileUploadEvent_def svg_acceptedFileTypes_def svg_accept_def
      uploader_acceptedFileTypes_def suffix_def)

end
